theory Spec2Isabelle
  imports Complex_Main "HOL-Library.Word"
begin

section \<open>Daubechies wavelet basis functions (BF\_DbWavelets)\<close>

text \<open>
  A shallow embedding of the class \<open>BF_DbWavelets\<close> of the VES module: its constructor
  and its method \<open>getAllValues\<close>.

  Conventions of the embedding.
  \<^item> \<open>unsigned\<close> is \<open>32 word\<close>: \<open>+\<close>, \<open>-\<close> and \<open>*\<close> wrap around, \<open>unat\<close> reads the
    value, and the conversion of an \<open>unsigned\<close> difference to \<open>int\<close> is \<open>sint\<close>.
  \<^item> \<open>double\<close> is \<open>real\<close>: the comparisons and the arithmetic of the source are read
    as exact, so rounding, infinities and NaN are outside the model.
  \<^item> \<open>std::vector<double>\<close> is \<open>real list\<close>. \<open>operator[]\<close> does not check its
    index; an access beyond the size is undefined behaviour in the source and the value
    \<open>Inl OutOfRange\<close> here.
  \<^item> The members of the base class \<open>BasisFunctions\<close> that the source reads through
    accessors are fields of one record, named after the accessors.
\<close>

subsection \<open>Data\<close>

type_synonym unsigned = "32 word"

datatype error = OutOfRange | FatalConfigurationError

text \<open>
  The tabulated function behind \<open>std::unique_ptr<Grid> waveletGrid_\<close>. Only two
  capabilities of the class \<open>Grid\<close> are used by the source: the number of bins and the
  interpolated lookup, which returns the value and the derivative at a coordinate.
\<close>

record Grid =
  getNbin :: nat
  getValueAndDerivatives :: "real \<Rightarrow> real \<times> real"

record BF_DbWavelets =
  getOrder :: unsigned
  getNumberOfBasisFunctions :: unsigned
  intervalMin :: real
  intervalMax :: real
  intrinsicIntervalMin :: real
  intrinsicIntervalMax :: real
  intervalDerivf :: real
  waveletGrid :: Grid
  use_scaling_function :: bool
  keywordList :: "(string \<times> unsigned) list"

text \<open>
  The two output vectors while \<open>getAllValues\<close> runs. The field \<open>lookups\<close> is not data
  of the source: it records, in order, each call of
  \<open>waveletGrid_->getValueAndDerivatives\<close> as the pair of the basis index and the
  coordinate looked up, so that "no lookup is performed" can be stated.
\<close>

record arrays =
  values_vec :: "real list"
  derivs_vec :: "real list"
  lookups :: "(unsigned \<times> real) list"

text \<open>What one call of \<open>getAllValues\<close> hands back through its reference parameters.\<close>

record outputs =
  argT :: real
  inside_range :: bool
  values_out :: "real list"
  derivs_out :: "real list"
  lookups_out :: "(unsigned \<times> real) list"

subsection \<open>Evaluation: \<open>getAllValues\<close>\<close>

text \<open>\<open>v[i] = x\<close> on a \<open>std::vector<double>\<close>.\<close>

definition store :: "real list \<Rightarrow> unsigned \<Rightarrow> real \<Rightarrow> error + real list" where
  "store v i x = (if unat i < length v then Inr (v[unat i := x]) else Inl OutOfRange)"

text \<open>
  Modelled from the spec: \<open>BasisFunctions::checkIfArgumentInsideInterval\<close> is declared in
  BasisFunctions.h, which is not among the sources. The specification says that it clamps
  and flags the argument against the interval \<open>[min, max]\<close>, that the flag is false
  outside, and that the mapped coordinate is returned in either case.
\<close>

definition checkIfArgumentInsideInterval :: "BF_DbWavelets \<Rightarrow> real \<Rightarrow> real \<times> bool" where
  "checkIfArgumentInsideInterval bf arg =
     (if arg < intervalMin bf then (intervalMin bf, False)
      else if arg > intervalMax bf then (intervalMax bf, False)
      else (arg, True))"

text \<open>Lines 133 and 135: the translate \<open>k\<close> and the local coordinate \<open>x\<close> of index \<open>i\<close>.\<close>

definition translate_k :: "BF_DbWavelets \<Rightarrow> unsigned \<Rightarrow> int" where
  "translate_k bf i = sint (i - getOrder bf)"

definition translate_x :: "BF_DbWavelets \<Rightarrow> real \<Rightarrow> unsigned \<Rightarrow> real" where
  "translate_x bf arg i =
     (arg - intervalMin bf) * intervalDerivf bf - real_of_int (translate_k bf i)"

text \<open>Lines 137 to 146: the body of the loop for one index.\<close>

definition loop_body :: "BF_DbWavelets \<Rightarrow> real \<Rightarrow> unsigned \<Rightarrow> arrays \<Rightarrow> error + arrays" where
  "loop_body bf arg i s =
     (let x = translate_x bf arg i in
      if x < 0 \<or> x > intrinsicIntervalMax bf then
        (case store (values_vec s) i 0 of
           Inl e \<Rightarrow> Inl e
         | Inr vs \<Rightarrow>
             (case store (derivs_vec s) i 0 of
                Inl e \<Rightarrow> Inl e
              | Inr ds \<Rightarrow> Inr (s\<lparr>values_vec := vs, derivs_vec := ds\<rparr>)))
      else
        (case getValueAndDerivatives (waveletGrid bf) x of
           (value, temp_deriv) \<Rightarrow>
             (case store (values_vec s) i value of
                Inl e \<Rightarrow> Inl e
              | Inr vs \<Rightarrow>
                  (case store (derivs_vec s) i (temp_deriv * intervalDerivf bf) of
                     Inl e \<Rightarrow> Inl e
                   | Inr ds \<Rightarrow>
                       Inr (s\<lparr>values_vec := vs, derivs_vec := ds,
                              lookups := lookups s @ [(i, x)]\<rparr>)))))"

text \<open>
  Line 131: \<open>for(unsigned int i = 1; i < getNumberOfBasisFunctions(); ++i)\<close>, entered
  at index \<open>i\<close>.
\<close>

function wavelet_loop :: "BF_DbWavelets \<Rightarrow> real \<Rightarrow> unsigned \<Rightarrow> arrays \<Rightarrow> error + arrays" where
  "wavelet_loop bf arg i s =
     (if i < getNumberOfBasisFunctions bf then
        (case loop_body bf arg i s of
           Inl e \<Rightarrow> Inl e
         | Inr s' \<Rightarrow> wavelet_loop bf arg (i + 1) s')
      else Inr s)"
  by pat_completeness auto
termination
proof (relation "measure (\<lambda>(bf, arg, i, s). unat (getNumberOfBasisFunctions bf) - unat i)")
  show "wf (measure (\<lambda>(bf, arg, i, s). unat (getNumberOfBasisFunctions bf) - unat i))"
    by simp
next
  fix bf :: BF_DbWavelets and arg :: real and i :: unsigned and s x2 :: arrays
  assume less: "i < getNumberOfBasisFunctions bf"
  then have "i + 1 \<noteq> 0"
    by (metis inc_less_eq_self_iff_eq word_order.extremum_strict word_zero_le)
  then have "unat (i + 1) = Suc (unat i)"
    by (simp add: unatSuc add.commute)
  moreover from less have "unat i < unat (getNumberOfBasisFunctions bf)"
    by (simp add: word_less_nat_alt)
  ultimately show "((bf, arg, i + 1, x2), (bf, arg, i, s))
      \<in> measure (\<lambda>(bf, arg, i, s). unat (getNumberOfBasisFunctions bf) - unat i)"
    by simp
qed

text \<open>Lines 123 to 149.\<close>

definition getAllValues :: "BF_DbWavelets \<Rightarrow> real \<Rightarrow> real list \<Rightarrow> real list \<Rightarrow> error + outputs" where
  "getAllValues bf arg values derivs =
     (case checkIfArgumentInsideInterval bf arg of
        (argT', inside) \<Rightarrow>
          (case store values 0 1 of
             Inl e \<Rightarrow> Inl e
           | Inr vs \<Rightarrow>
               (case store derivs 0 0 of
                  Inl e \<Rightarrow> Inl e
                | Inr ds \<Rightarrow>
                    (case wavelet_loop bf arg 1
                            \<lparr>values_vec = vs, derivs_vec = ds, lookups = []\<rparr> of
                       Inl e \<Rightarrow> Inl e
                     | Inr s \<Rightarrow>
                         Inr \<lparr>argT = argT', inside_range = inside,
                              values_out = values_vec s,
                              derivs_out =
                                (if \<not> inside then map (\<lambda>deriv. 0) (derivs_vec s)
                                 else derivs_vec s),
                              lookups_out = lookups s\<rparr>))))"

text \<open>
  What the body of the loop leaves at index \<open>i\<close>: the pair written to \<open>values[i]\<close> and
  \<open>derivs[i]\<close>, and the lookup it performs, if any. They restate lines 137 to 146 without
  the vectors and serve to describe the result of the loop.
\<close>

definition entry :: "BF_DbWavelets \<Rightarrow> real \<Rightarrow> unsigned \<Rightarrow> real \<times> real" where
  "entry bf arg i =
     (let x = translate_x bf arg i in
      if x < 0 \<or> x > intrinsicIntervalMax bf then (0, 0)
      else (fst (getValueAndDerivatives (waveletGrid bf) x),
            snd (getValueAndDerivatives (waveletGrid bf) x) * intervalDerivf bf))"

definition lookup_at :: "BF_DbWavelets \<Rightarrow> real \<Rightarrow> unsigned \<Rightarrow> (unsigned \<times> real) list" where
  "lookup_at bf arg i =
     (let x = translate_x bf arg i in
      if x < 0 \<or> x > intrinsicIntervalMax bf then [] else [(i, x)])"

subsection \<open>Construction\<close>

text \<open>
  The keywords of the action that the constructor reads. \<open>ORDER\<close>, \<open>MINIMUM\<close> and
  \<open>MAXIMUM\<close> are parsed by the base class (\<open>PLUMED_VES_BASISFUNCTIONS_INIT\<close>);
  \<open>GRID_SIZE\<close> is optional.
\<close>

record ActionOptions =
  ORDER :: unsigned
  MINIMUM :: real
  MAXIMUM :: real
  GRID_SIZE :: "unsigned option"
  SCALING_FUNCTION :: bool
  DUMP_WAVELET_GRID :: bool

text \<open>
  Modelled from the spec: \<open>DbWaveletGrid::setupGrid\<close> is defined in DbWaveletGrid.cpp,
  which is not among the sources. The specification says: the builder starts from a coarse
  approximation on the support of width \<open>2N-1\<close> and refines it, "at each refinement level
  doubling the grid resolution, until the grid point count reaches or exceeds the requested
  size", as "an explicit loop over refinement levels" whose guard is the comparison with
  the requested size. An order below 1 and a requested size of zero are fatal configuration
  errors. The integers are those of the specification, unbounded. The loop returns
  \<open>None\<close> when it does not end.

  The samples that the cascade algorithm computes are floating-point data and are not
  modelled: \<open>table N G dowavelet\<close> stands for the interpolated lookup of the grid with
  \<open>G\<close> bins built for order \<open>N\<close>, and is a parameter.
\<close>

partial_function (option) refine_grid :: "nat \<Rightarrow> nat \<Rightarrow> nat option" where
  "refine_grid gridsize requested =
     (if gridsize < requested then refine_grid (2 * gridsize) requested else Some gridsize)"

definition setupGrid ::
  "(nat \<Rightarrow> nat \<Rightarrow> bool \<Rightarrow> real \<Rightarrow> real \<times> real) \<Rightarrow> nat \<Rightarrow> nat \<Rightarrow> bool \<Rightarrow> (error + Grid) option" where
  "setupGrid table order' gridsize dowavelet =
     (if order' < 1 \<or> gridsize < 1 then Some (Inl FatalConfigurationError)
      else
        (case refine_grid (2 * order' - 1) gridsize of
           None \<Rightarrow> None
         | Some true_gridsize \<Rightarrow>
             Some (Inr \<lparr>getNbin = true_gridsize,
                        getValueAndDerivatives = table order' true_gridsize dowavelet\<rparr>)))"

text \<open>
  Lines 90 to 120. The base class and \<open>setupBF\<close> are not among the sources; of what
  they do the model keeps what the specification states: the interval \<open>[min, max]\<close> is the
  one configured, and \<open>intervalDerivf\<close> is the width of the intrinsic interval divided
  by \<open>max - min\<close>. \<open>setIntrinsicInterval\<close> receives the bounds as decimal strings,
  \<open>"0"\<close> and the digits of the \<open>unsigned\<close> value \<open>getNumberOfBasisFunctions()-1\<close>, and
  stores the numbers they denote. \<open>keywordList\<close> holds what this constructor passes to
  \<open>addKeywordToList\<close>. Writing the grid to a file (lines 105 to 109) is left out.
\<close>

definition BF_DbWavelets_ctor ::
  "(nat \<Rightarrow> nat \<Rightarrow> bool \<Rightarrow> real \<Rightarrow> real \<times> real) \<Rightarrow> ActionOptions \<Rightarrow> (error + BF_DbWavelets) option" where
  "BF_DbWavelets_ctor table ao =
     (let nbasis = (ORDER ao * 3) - 1;
          gridsize = (case GRID_SIZE ao of None \<Rightarrow> 1000 | Some g \<Rightarrow> g)
      in case setupGrid table (unat (ORDER ao)) (unat gridsize) (\<not> SCALING_FUNCTION ao) of
           None \<Rightarrow> None
         | Some (Inl e) \<Rightarrow> Some (Inl e)
         | Some (Inr grid) \<Rightarrow>
             (let true_gridsize = (word_of_nat (getNbin grid) :: unsigned);
                  intrinsic_max = real (unat (nbasis - 1))
              in Some (Inr
                   \<lparr>getOrder = ORDER ao,
                    getNumberOfBasisFunctions = nbasis,
                    intervalMin = MINIMUM ao,
                    intervalMax = MAXIMUM ao,
                    intrinsicIntervalMin = 0,
                    intrinsicIntervalMax = intrinsic_max,
                    intervalDerivf = (intrinsic_max - 0) / (MAXIMUM ao - MINIMUM ao),
                    waveletGrid = grid,
                    use_scaling_function = SCALING_FUNCTION ao,
                    keywordList =
                      (if true_gridsize \<noteq> 1000 then [(''GRID_SIZE'', true_gridsize)]
                       else [])\<rparr>)))"

subsection \<open>Sample objects\<close>

text \<open>
  A table and a configuration on which the theorems below are instantiated. The table
  returns \<open>x\<^sup>2\<close> with its derivative \<open>2x\<close> whatever the order; no theorem depends on
  its shape. \<open>bf_N2\<close> is what the constructor returns for order 2 on the interval
  \<open>[0, 1]\<close> with the default grid size.
\<close>

definition example_table :: "nat \<Rightarrow> nat \<Rightarrow> bool \<Rightarrow> real \<Rightarrow> real \<times> real" where
  "example_table N G dowavelet x = (x * x, 2 * x)"

definition options_N2 :: ActionOptions where
  "options_N2 = \<lparr>ORDER = 2, MINIMUM = 0, MAXIMUM = 1, GRID_SIZE = None,
                  SCALING_FUNCTION = False, DUMP_WAVELET_GRID = False\<rparr>"

definition bf_N2 :: BF_DbWavelets where
  "bf_N2 = \<lparr>getOrder = 2, getNumberOfBasisFunctions = 5, intervalMin = 0, intervalMax = 1,
            intrinsicIntervalMin = 0, intrinsicIntervalMax = 4, intervalDerivf = 4,
            waveletGrid = \<lparr>getNbin = 1536, getValueAndDerivatives = example_table 2 1536 True\<rparr>,
            use_scaling_function = False, keywordList = [(''GRID_SIZE'', 1536)]\<rparr>"

section \<open>Properties\<close>

subsection \<open>The loop and the whole call, described entry by entry\<close>

declare wavelet_loop.simps [simp del]

lemma store_ok: "unat i < length v \<Longrightarrow> store v i x = Inr (v[unat i := x])"
  by (simp add: store_def)

lemma loop_body_ok:
  assumes "unat i < length (values_vec s)" "unat i < length (derivs_vec s)"
  shows "loop_body bf arg i s =
           Inr (s\<lparr>values_vec := (values_vec s)[unat i := fst (entry bf arg i)],
                  derivs_vec := (derivs_vec s)[unat i := snd (entry bf arg i)],
                  lookups := lookups s @ lookup_at bf arg i\<rparr>)"
  using assms
  by (simp add: loop_body_def entry_def lookup_at_def store_ok Let_def split: prod.split)

lemma unat_inc: "(i::unsigned) < n \<Longrightarrow> unat (i + 1) = Suc (unat i)"
proof -
  assume "i < n"
  then have "i + 1 \<noteq> 0"
    by (metis inc_less_eq_self_iff_eq word_order.extremum_strict word_zero_le)
  then show ?thesis by (simp add: unatSuc add.commute)
qed

lemma wavelet_loop_ok:
  assumes "unat (getNumberOfBasisFunctions bf) \<le> length (values_vec s)"
    and "unat (getNumberOfBasisFunctions bf) \<le> length (derivs_vec s)"
  shows "\<exists>s'. wavelet_loop bf arg i s = Inr s'
           \<and> length (values_vec s') = length (values_vec s)
           \<and> length (derivs_vec s') = length (derivs_vec s)
           \<and> (\<forall>j < length (values_vec s). values_vec s' ! j =
                 (if unat i \<le> j \<and> j < unat (getNumberOfBasisFunctions bf)
                  then fst (entry bf arg (of_nat j)) else values_vec s ! j))
           \<and> (\<forall>j < length (derivs_vec s). derivs_vec s' ! j =
                 (if unat i \<le> j \<and> j < unat (getNumberOfBasisFunctions bf)
                  then snd (entry bf arg (of_nat j)) else derivs_vec s ! j))
           \<and> lookups s' = lookups s @
                 concat (map (\<lambda>j. lookup_at bf arg (of_nat j))
                   [unat i ..< unat (getNumberOfBasisFunctions bf)])"
  using assms
proof (induction bf arg i s rule: wavelet_loop.induct)
  case (1 bf arg i s)
  let ?n = "getNumberOfBasisFunctions bf"
  show ?case
  proof (cases "i < ?n")
    case False
    then have "\<not> unat i < unat ?n" by (simp add: word_less_nat_alt)
    with False show ?thesis
      by (subst wavelet_loop.simps) auto
  next
    case True
    then have lt: "unat i < unat ?n" by (simp add: word_less_nat_alt)
    have inc: "unat (i + 1) = Suc (unat i)" using True by (rule unat_inc)
    let ?s1 = "s\<lparr>values_vec := (values_vec s)[unat i := fst (entry bf arg i)],
                  derivs_vec := (derivs_vec s)[unat i := snd (entry bf arg i)],
                  lookups := lookups s @ lookup_at bf arg i\<rparr>"
    have body: "loop_body bf arg i s = Inr ?s1"
      using lt "1.prems" by (intro loop_body_ok) auto
    from "1.IH"[OF True body] "1.prems"
    obtain s' where s': "wavelet_loop bf arg (i + 1) ?s1 = Inr s'"
      and lv: "length (values_vec s') = length (values_vec s)"
      and ld: "length (derivs_vec s') = length (derivs_vec s)"
      and v: "\<forall>j < length (values_vec s). values_vec s' ! j =
                 (if unat (i + 1) \<le> j \<and> j < unat ?n
                  then fst (entry bf arg (of_nat j)) else values_vec ?s1 ! j)"
      and d: "\<forall>j < length (derivs_vec s). derivs_vec s' ! j =
                 (if unat (i + 1) \<le> j \<and> j < unat ?n
                  then snd (entry bf arg (of_nat j)) else derivs_vec ?s1 ! j)"
      and l: "lookups s' = lookups ?s1 @
                 concat (map (\<lambda>j. lookup_at bf arg (of_nat j)) [unat (i + 1) ..< unat ?n])"
      by auto
    have run: "wavelet_loop bf arg i s = Inr s'"
      using True body s' by (subst wavelet_loop.simps) simp
    have v': "\<forall>j < length (values_vec s). values_vec s' ! j =
                 (if unat i \<le> j \<and> j < unat ?n
                  then fst (entry bf arg (of_nat j)) else values_vec s ! j)"
    proof (intro allI impI)
      fix j assume j: "j < length (values_vec s)"
      show "values_vec s' ! j =
                 (if unat i \<le> j \<and> j < unat ?n
                  then fst (entry bf arg (of_nat j)) else values_vec s ! j)"
      proof (cases "j = unat i")
        case True
        then show ?thesis using v j lt by (simp add: inc)
      next
        case False
        then show ?thesis using v j by (auto simp: inc)
      qed
    qed
    have d': "\<forall>j < length (derivs_vec s). derivs_vec s' ! j =
                 (if unat i \<le> j \<and> j < unat ?n
                  then snd (entry bf arg (of_nat j)) else derivs_vec s ! j)"
    proof (intro allI impI)
      fix j assume j: "j < length (derivs_vec s)"
      show "derivs_vec s' ! j =
                 (if unat i \<le> j \<and> j < unat ?n
                  then snd (entry bf arg (of_nat j)) else derivs_vec s ! j)"
      proof (cases "j = unat i")
        case True
        then show ?thesis using d j lt by (simp add: inc)
      next
        case False
        then show ?thesis using d j by (auto simp: inc)
      qed
    qed
    have l': "lookups s' = lookups s @
                 concat (map (\<lambda>j. lookup_at bf arg (of_nat j)) [unat i ..< unat ?n])"
      using l lt by (simp add: inc upt_conv_Cons)
    from run lv ld v' d' l' show ?thesis by blast
  qed
qed

lemma getAllValues_ok:
  assumes "0 < length vs" "0 < length ds"
    and "unat (getNumberOfBasisFunctions bf) \<le> length vs"
    and "unat (getNumberOfBasisFunctions bf) \<le> length ds"
  shows "\<exists>r. getAllValues bf arg vs ds = Inr r
           \<and> argT r = fst (checkIfArgumentInsideInterval bf arg)
           \<and> inside_range r = snd (checkIfArgumentInsideInterval bf arg)
           \<and> length (values_out r) = length vs
           \<and> length (derivs_out r) = length ds
           \<and> (\<forall>j < length vs. values_out r ! j =
                 (if j = 0 then 1
                  else if j < unat (getNumberOfBasisFunctions bf)
                  then fst (entry bf arg (of_nat j)) else vs ! j))
           \<and> (\<forall>j < length ds. derivs_out r ! j =
                 (if \<not> snd (checkIfArgumentInsideInterval bf arg) then 0
                  else if j = 0 then 0
                  else if j < unat (getNumberOfBasisFunctions bf)
                  then snd (entry bf arg (of_nat j)) else ds ! j))
           \<and> lookups_out r =
                 concat (map (\<lambda>j. lookup_at bf arg (of_nat j))
                   [1 ..< unat (getNumberOfBasisFunctions bf)])"
proof -
  let ?s0 = "\<lparr>values_vec = vs[0 := 1], derivs_vec = ds[0 := 0], lookups = []\<rparr>"
  have "unat (getNumberOfBasisFunctions bf) \<le> length (values_vec ?s0)"
    and "unat (getNumberOfBasisFunctions bf) \<le> length (derivs_vec ?s0)"
    using assms by simp_all
  from wavelet_loop_ok [OF this, of arg 1]
  obtain s' where run: "wavelet_loop bf arg 1 ?s0 = Inr s'"
    and lv: "length (values_vec s') = length vs"
    and ld: "length (derivs_vec s') = length ds"
    and v: "\<forall>j < length vs. values_vec s' ! j =
              (if 1 \<le> j \<and> j < unat (getNumberOfBasisFunctions bf)
               then fst (entry bf arg (of_nat j)) else vs[0 := 1] ! j)"
    and d: "\<forall>j < length ds. derivs_vec s' ! j =
              (if 1 \<le> j \<and> j < unat (getNumberOfBasisFunctions bf)
               then snd (entry bf arg (of_nat j)) else ds[0 := 0] ! j)"
    and l: "lookups s' = concat (map (\<lambda>j. lookup_at bf arg (of_nat j))
              [1 ..< unat (getNumberOfBasisFunctions bf)])"
    by auto
  obtain a b where chk: "checkIfArgumentInsideInterval bf arg = (a, b)"
    by (cases "checkIfArgumentInsideInterval bf arg")
  have st: "store vs 0 1 = Inr (vs[0 := 1])" "store ds 0 0 = Inr (ds[0 := 0])"
    using assms by (simp_all add: store_def)
  have eq: "getAllValues bf arg vs ds =
      Inr \<lparr>argT = a, inside_range = b, values_out = values_vec s',
           derivs_out = (if \<not> b then map (\<lambda>deriv. 0) (derivs_vec s') else derivs_vec s'),
           lookups_out = lookups s'\<rparr>"
    by (simp add: getAllValues_def chk st run)
  have v': "\<forall>j < length vs. values_vec s' ! j =
                 (if j = 0 then 1
                  else if j < unat (getNumberOfBasisFunctions bf)
                  then fst (entry bf arg (of_nat j)) else vs ! j)"
    using v by (auto simp: nth_list_update)
  have d': "\<forall>j < length ds.
      (if \<not> b then map (\<lambda>deriv. 0) (derivs_vec s') else derivs_vec s') ! j =
                 (if \<not> b then 0
                  else if j = 0 then 0
                  else if j < unat (getNumberOfBasisFunctions bf)
                  then snd (entry bf arg (of_nat j)) else ds ! j)"
    using d ld by (auto simp: nth_list_update)
  show ?thesis
    using v' d' lv ld l by (simp add: eq chk)
qed

lemma presized_nonempty:
  assumes "0 < (n::unsigned)" and "unat n \<le> length (v::real list)"
  shows "0 < length v"
proof -
  from assms(1) have "0 < unat n" by (simp add: word_less_nat_alt)
  with assms(2) show ?thesis by linarith
qed

subsection \<open>Machine arithmetic of the indices\<close>

lemma uint_less_unat:
  fixes i :: unsigned
  assumes "unat i < 2 ^ 31"
  shows "uint i < 2 ^ 31"
proof -
  have "int (unat i) < int (2 ^ 31)" using assms by (rule iffD2[OF of_nat_less_iff])
  then show ?thesis by simp
qed

lemma sint_sub:
  fixes i N :: unsigned
  assumes "unat i < 2 ^ 31" "unat N < 2 ^ 31"
  shows "sint (i - N) = int (unat i) - int (unat N)"
proof -
  have i: "uint i < 2 ^ 31" using assms(1) by (rule uint_less_unat)
  have N: "uint N < 2 ^ 31" using assms(2) by (rule uint_less_unat)
  have i0: "0 \<le> uint i" and N0: "0 \<le> uint N" by simp_all
  have "sint (i - N) = signed_take_bit 31 (take_bit 32 (uint i - uint N))"
    by (simp add: sint_uint uint_word_arith_bintrs)
  also have "\<dots> = signed_take_bit 31 (uint i - uint N)"
    by (simp add: signed_take_bit_take_bit)
  also have "\<dots> = uint i - uint N"
  proof (rule signed_take_bit_int_eq_self)
    show "- (2 ^ 31) \<le> uint i - uint N" using i0 N by linarith
    show "uint i - uint N < 2 ^ 31" using i N0 by linarith
  qed
  finally show ?thesis by simp
qed

lemma unat_nbasis:
  fixes N :: unsigned
  assumes "1 \<le> unat N" "3 * unat N \<le> 2 ^ 32"
  shows "unat (N * 3 - 1) = 3 * unat N - 1" and "unat (N * 3 - 1 - 1) = 3 * unat N - 2"
proof -
  have "3 * unat N \<noteq> (2::nat) ^ 32"
  proof
    assume "3 * unat N = (2::nat) ^ 32"
    then have "(3 * unat N) mod 3 = (2::nat) ^ 32 mod 3" by simp
    then show False by simp
  qed
  with assms have lt: "unat N * unat (3::unsigned) < 2 ^ LENGTH(32)" by simp
  have m: "unat (N * 3) = 3 * unat N"
    using lt by (simp add: unat_mult_lem [THEN iffD1])
  have "N * 3 \<noteq> 0" using m assms by (metis mult_is_0 not_one_le_zero unat_0 zero_neq_numeral)
  then have a: "unat (N * 3 - 1) = unat (N * 3) - 1" by (rule unat_minus_one)
  show "unat (N * 3 - 1) = 3 * unat N - 1" using a m by simp
  have "unat (N * 3 - 1) \<noteq> 0" using a m assms by simp
  then have "N * 3 - 1 \<noteq> 0" by (metis unat_0)
  then have "unat (N * 3 - 1 - 1) = unat (N * 3 - 1) - 1" by (rule unat_minus_one)
  then show "unat (N * 3 - 1 - 1) = 3 * unat N - 2" using a m by simp
qed

subsection \<open>The grid builder and the constructor\<close>

lemma refine_grid_ok:
  "0 < g \<Longrightarrow> \<exists>n. refine_grid g R = Some (g * 2 ^ n) \<and> R \<le> g * 2 ^ n \<and> (\<forall>m<n. g * 2 ^ m < R)"
proof (induction "R - g" arbitrary: g rule: less_induct)
  case less
  show ?case
  proof (cases "g < R")
    case False
    then have "refine_grid g R = Some (g * 2 ^ 0)" by (subst refine_grid.simps) simp
    with False show ?thesis by (intro exI[of _ 0]) simp
  next
    case True
    with less.prems have "R - 2 * g < R - g" by arith
    from less.hyps[OF this] less.prems
    obtain n where n: "refine_grid (2 * g) R = Some (2 * g * 2 ^ n)" "R \<le> 2 * g * 2 ^ n"
      "\<forall>m<n. 2 * g * 2 ^ m < R" by auto
    have "refine_grid g R = Some (g * 2 ^ Suc n)"
      using True n(1) by (subst refine_grid.simps) (simp add: mult_ac)
    moreover have "R \<le> g * 2 ^ Suc n" using n(2) by (simp add: mult_ac)
    moreover have "\<forall>m<Suc n. g * 2 ^ m < R"
    proof (intro allI impI)
      fix m assume "m < Suc n"
      show "g * 2 ^ m < R"
      proof (cases m)
        case 0 then show ?thesis using True by simp
      next
        case (Suc m')
        with \<open>m < Suc n\<close> have "m' < n" by simp
        with n(3) have "2 * g * 2 ^ m' < R" by blast
        then show ?thesis using Suc by (simp add: mult_ac)
      qed
    qed
    ultimately show ?thesis by blast
  qed
qed

lemma setupGrid_ok:
  assumes "1 \<le> N" "1 \<le> R"
  shows "\<exists>g n. setupGrid table N R dowavelet = Some (Inr g)
           \<and> getNbin g = (2 * N - 1) * 2 ^ n
           \<and> R \<le> (2 * N - 1) * 2 ^ n
           \<and> (\<forall>m<n. (2 * N - 1) * 2 ^ m < R)"
proof -
  from assms have "0 < 2 * N - 1" by simp
  from refine_grid_ok [OF this, of R]
  obtain n where n: "refine_grid (2 * N - 1) R = Some ((2 * N - 1) * 2 ^ n)"
    "R \<le> (2 * N - 1) * 2 ^ n" "\<forall>m<n. (2 * N - 1) * 2 ^ m < R" by blast
  let ?g = "\<lparr>getNbin = (2 * N - 1) * 2 ^ n,
             getValueAndDerivatives = table N ((2 * N - 1) * 2 ^ n) dowavelet\<rparr>"
  have "setupGrid table N R dowavelet = Some (Inr ?g)"
    using assms n(1) by (simp add: setupGrid_def)
  with n(2,3) show ?thesis by (intro exI[of _ ?g] exI[of _ n]) simp
qed

lemma ctor_fields:
  assumes "BF_DbWavelets_ctor table ao = Some (Inr bf)"
  shows "getOrder bf = ORDER ao"
    and "getNumberOfBasisFunctions bf = ORDER ao * 3 - 1"
    and "intervalMin bf = MINIMUM ao"
    and "intervalMax bf = MAXIMUM ao"
    and "intrinsicIntervalMax bf = real (unat (ORDER ao * 3 - 1 - 1))"
    and "keywordList bf =
           (if (word_of_nat (getNbin (waveletGrid bf)) :: unsigned) \<noteq> 1000
            then [(''GRID_SIZE'', word_of_nat (getNbin (waveletGrid bf)))] else [])"
  using assms
  by (auto simp: BF_DbWavelets_ctor_def Let_def split: option.splits sum.splits)

lemma ctor_ok:
  assumes "1 \<le> unat (ORDER ao)" "GRID_SIZE ao \<noteq> Some 0"
  shows "\<exists>bf. BF_DbWavelets_ctor table ao = Some (Inr bf)"
proof -
  let ?R = "unat (case GRID_SIZE ao of None \<Rightarrow> (1000::unsigned) | Some g \<Rightarrow> g)"
  have "1 \<le> ?R"
  proof (cases "GRID_SIZE ao")
    case None then show ?thesis by simp
  next
    case (Some g)
    with assms(2) have "g \<noteq> 0" by simp
    then have "unat g \<noteq> 0" by (simp add: unat_eq_zero)
    with Some show ?thesis by simp
  qed
  from setupGrid_ok [OF assms(1) this, of table "\<not> SCALING_FUNCTION ao"]
  obtain g where "setupGrid table (unat (ORDER ao)) ?R (\<not> SCALING_FUNCTION ao) = Some (Inr g)"
    by blast
  then show ?thesis by (simp add: BF_DbWavelets_ctor_def Let_def)
qed

lemma ctor_N2: "BF_DbWavelets_ctor example_table options_N2 = Some (Inr bf_N2)"
  by (simp add: BF_DbWavelets_ctor_def options_N2_def bf_N2_def setupGrid_def refine_grid.simps)

lemma index_in_range:
  fixes i n :: unsigned
  assumes "1 \<le> i" "i < n"
  shows "unat i \<noteq> 0" and "unat i < unat n" and "(of_nat (unat i) :: unsigned) = i"
proof -
  from assms(1) have "unat (1::unsigned) \<le> unat i" by (simp only: word_le_nat_alt)
  then show "unat i \<noteq> 0" by simp
  from assms(2) show "unat i < unat n" by (simp add: word_less_nat_alt)
  show "(of_nat (unat i) :: unsigned) = i" by simp
qed

lemma lookup_performed_iff:
  fixes i :: unsigned
  assumes "1 \<le> i" "i < getNumberOfBasisFunctions bf"
  shows "(i, x) \<in> set (concat (map (\<lambda>j. lookup_at bf arg (of_nat j))
                          [1 ..< unat (getNumberOfBasisFunctions bf)]))
         \<longleftrightarrow> x = translate_x bf arg i \<and> 0 \<le> x \<and> x \<le> intrinsicIntervalMax bf"
proof
  note ix = index_in_range [OF assms]
  assume "(i, x) \<in> set (concat (map (\<lambda>j. lookup_at bf arg (of_nat j))
                          [1 ..< unat (getNumberOfBasisFunctions bf)]))"
  then obtain j where "(i, x) \<in> set (lookup_at bf arg (of_nat j))" by auto
  then show "x = translate_x bf arg i \<and> 0 \<le> x \<and> x \<le> intrinsicIntervalMax bf"
    by (auto simp: lookup_at_def Let_def split: if_splits)
next
  note ix = index_in_range [OF assms]
  assume x: "x = translate_x bf arg i \<and> 0 \<le> x \<and> x \<le> intrinsicIntervalMax bf"
  then have "(i, x) \<in> set (lookup_at bf arg (of_nat (unat i)))"
    by (auto simp: lookup_at_def Let_def)
  moreover have "unat i \<in> set [1 ..< unat (getNumberOfBasisFunctions bf)]"
    using ix by simp
  ultimately show "(i, x) \<in> set (concat (map (\<lambda>j. lookup_at bf arg (of_nat j))
                          [1 ..< unat (getNumberOfBasisFunctions bf)]))"
    unfolding set_concat set_map by blast
qed

lemma written_entries:
  assumes "0 < getNumberOfBasisFunctions bf"
    and "unat (getNumberOfBasisFunctions bf) \<le> length values"
    and "unat (getNumberOfBasisFunctions bf) \<le> length derivs"
  shows "\<exists>r. getAllValues bf arg values derivs = Inr r
           \<and> argT r = fst (checkIfArgumentInsideInterval bf arg)
           \<and> inside_range r = snd (checkIfArgumentInsideInterval bf arg)
           \<and> lookups_out r =
               concat (map (\<lambda>j. lookup_at bf arg (of_nat j))
                 [1 ..< unat (getNumberOfBasisFunctions bf)])
           \<and> length (values_out r) = length values
           \<and> length (derivs_out r) = length derivs
           \<and> (\<forall>j < unat (getNumberOfBasisFunctions bf).
                 values_out r ! j =
                   (if j = 0 then 1
                    else let x = translate_x bf arg (of_nat j) in
                         if x < 0 \<or> x > intrinsicIntervalMax bf then 0
                         else fst (getValueAndDerivatives (waveletGrid bf) x))
                 \<and> derivs_out r ! j =
                   (if \<not> snd (checkIfArgumentInsideInterval bf arg) \<or> j = 0 then 0
                    else let x = translate_x bf arg (of_nat j) in
                         if x < 0 \<or> x > intrinsicIntervalMax bf then 0
                         else snd (getValueAndDerivatives (waveletGrid bf) x)
                                * intervalDerivf bf))"
proof -
  let ?n = "unat (getNumberOfBasisFunctions bf)"
  have pos: "0 < length values" "0 < length derivs"
    using presized_nonempty [OF assms(1,2)] presized_nonempty [OF assms(1,3)] .
  from getAllValues_ok [OF pos assms(2,3), of arg]
  obtain r where r: "getAllValues bf arg values derivs = Inr r"
    and a: "argT r = fst (checkIfArgumentInsideInterval bf arg)"
    and b: "inside_range r = snd (checkIfArgumentInsideInterval bf arg)"
    and lv: "length (values_out r) = length values"
    and ld: "length (derivs_out r) = length derivs"
    and v: "\<forall>j < length values. values_out r ! j =
              (if j = 0 then 1
               else if j < ?n then fst (entry bf arg (of_nat j)) else values ! j)"
    and d: "\<forall>j < length derivs. derivs_out r ! j =
              (if \<not> snd (checkIfArgumentInsideInterval bf arg) then 0
               else if j = 0 then 0
               else if j < ?n then snd (entry bf arg (of_nat j)) else derivs ! j)"
    and l: "lookups_out r = concat (map (\<lambda>j. lookup_at bf arg (of_nat j)) [1 ..< ?n])"
    by blast
  have "values_out r ! j =
          (if j = 0 then 1
           else let x = translate_x bf arg (of_nat j) in
                if x < 0 \<or> x > intrinsicIntervalMax bf then 0
                else fst (getValueAndDerivatives (waveletGrid bf) x))
        \<and> derivs_out r ! j =
          (if \<not> snd (checkIfArgumentInsideInterval bf arg) \<or> j = 0 then 0
           else let x = translate_x bf arg (of_nat j) in
                if x < 0 \<or> x > intrinsicIntervalMax bf then 0
                else snd (getValueAndDerivatives (waveletGrid bf) x) * intervalDerivf bf)"
    if j: "j < ?n" for j
  proof -
    from j assms(2,3) have "j < length values" "j < length derivs" by linarith+
    with v d j show ?thesis by (simp add: entry_def Let_def)
  qed
  with r a b l lv ld show ?thesis by blast
qed

subsection \<open>The claims\<close>

text \<open>
  C5. For every argument, inside the interval or not, a call of \<open>getAllValues\<close> on vectors
  that hold at least \<open>getNumberOfBasisFunctions()\<close> entries returns with
  \<open>values[0] = 1.0\<close> and \<open>derivs[0] = 0.0\<close>, the constant basis function.
\<close>

theorem constant_basis_function:
  assumes "0 < getNumberOfBasisFunctions bf"
    and "unat (getNumberOfBasisFunctions bf) \<le> length values"
    and "unat (getNumberOfBasisFunctions bf) \<le> length derivs"
  shows "\<exists>r. getAllValues bf arg values derivs = Inr r
           \<and> values_out r ! 0 = 1 \<and> derivs_out r ! 0 = 0"
proof -
  have pos: "0 < length values" "0 < length derivs"
    using presized_nonempty [OF assms(1,2)] presized_nonempty [OF assms(1,3)] .
  from getAllValues_ok [OF pos assms(2,3), of arg]
  obtain r where r: "getAllValues bf arg values derivs = Inr r"
    and v: "\<forall>j < length values. values_out r ! j =
              (if j = 0 then 1
               else if j < unat (getNumberOfBasisFunctions bf)
               then fst (entry bf arg (of_nat j)) else values ! j)"
    and d: "\<forall>j < length derivs. derivs_out r ! j =
              (if \<not> snd (checkIfArgumentInsideInterval bf arg) then 0
               else if j = 0 then 0
               else if j < unat (getNumberOfBasisFunctions bf)
               then snd (entry bf arg (of_nat j)) else derivs ! j)"
    by blast
  from v pos(1) have "values_out r ! 0 = 1" by simp
  moreover from d pos(2) have "derivs_out r ! 0 = 0" by simp
  ultimately show ?thesis using r by blast
qed

theorem constant_basis_function_witness:
  "0 < getNumberOfBasisFunctions bf_N2
   \<and> unat (getNumberOfBasisFunctions bf_N2) \<le> length [7, 7, 7, 7, 7 :: real]
   \<and> (\<exists>r. getAllValues bf_N2 2 [7, 7, 7, 7, 7] [7, 7, 7, 7, 7] = Inr r
         \<and> values_out r ! 0 = 1 \<and> derivs_out r ! 0 = 0)"
  using constant_basis_function [of bf_N2 "[7, 7, 7, 7, 7]" "[7, 7, 7, 7, 7]" 2]
  by (simp add: bf_N2_def)

text \<open>
  C4. For every argument strictly outside \<open>[min, max]\<close>, a call on vectors that hold at
  least \<open>getNumberOfBasisFunctions()\<close> entries returns with \<open>inside_range\<close> false, with
  the mapped coordinate (the bound of the interval that was crossed), and with every entry
  of \<open>derivs\<close> equal to \<open>0.0\<close>. The entries of \<open>values\<close> are the computed ones: 1 at
  index 0 and, at each index \<open>i \<ge> 1\<close>, zero or the tabulated value at the local
  coordinate, exactly as for an argument inside the interval.
\<close>

theorem outside_interval_zero_derivs:
  assumes "arg < intervalMin bf \<or> intervalMax bf < arg"
    and "0 < getNumberOfBasisFunctions bf"
    and "unat (getNumberOfBasisFunctions bf) \<le> length values"
    and "unat (getNumberOfBasisFunctions bf) \<le> length derivs"
  shows "\<exists>r. getAllValues bf arg values derivs = Inr r
           \<and> \<not> inside_range r
           \<and> argT r = (if arg < intervalMin bf then intervalMin bf else intervalMax bf)
           \<and> derivs_out r = replicate (length derivs) 0
           \<and> values_out r ! 0 = 1
           \<and> (\<forall>i. 1 \<le> i \<and> i < getNumberOfBasisFunctions bf \<longrightarrow>
                 values_out r ! unat i =
                   (let x = translate_x bf arg i in
                    if x < 0 \<or> x > intrinsicIntervalMax bf then 0
                    else fst (getValueAndDerivatives (waveletGrid bf) x)))"
proof -
  let ?n = "getNumberOfBasisFunctions bf"
  have pos: "0 < length values" "0 < length derivs"
    using presized_nonempty [OF assms(2,3)] presized_nonempty [OF assms(2,4)] .
  have chk: "checkIfArgumentInsideInterval bf arg =
      ((if arg < intervalMin bf then intervalMin bf else intervalMax bf), False)"
    using assms(1) by (auto simp: checkIfArgumentInsideInterval_def)
  from getAllValues_ok [OF pos assms(3,4), of arg]
  obtain r where r: "getAllValues bf arg values derivs = Inr r"
    and a: "argT r = fst (checkIfArgumentInsideInterval bf arg)"
    and b: "inside_range r = snd (checkIfArgumentInsideInterval bf arg)"
    and ld: "length (derivs_out r) = length derivs"
    and v: "\<forall>j < length values. values_out r ! j =
              (if j = 0 then 1
               else if j < unat ?n then fst (entry bf arg (of_nat j)) else values ! j)"
    and d: "\<forall>j < length derivs. derivs_out r ! j =
              (if \<not> snd (checkIfArgumentInsideInterval bf arg) then 0
               else if j = 0 then 0
               else if j < unat ?n then snd (entry bf arg (of_nat j)) else derivs ! j)"
    by blast
  have "\<not> inside_range r" using b chk by simp
  moreover have "argT r = (if arg < intervalMin bf then intervalMin bf else intervalMax bf)"
    using a chk by simp
  moreover have "derivs_out r = replicate (length derivs) 0"
    using d ld chk by (simp add: list_eq_iff_nth_eq)
  moreover have "values_out r ! 0 = 1" using v pos(1) by simp
  moreover have "\<forall>i. 1 \<le> i \<and> i < ?n \<longrightarrow>
                 values_out r ! unat i =
                   (let x = translate_x bf arg i in
                    if x < 0 \<or> x > intrinsicIntervalMax bf then 0
                    else fst (getValueAndDerivatives (waveletGrid bf) x))"
  proof (intro allI impI)
    fix i assume i: "1 \<le> i \<and> i < ?n"
    then have "1 \<le> i" "i < ?n" by simp_all
    note ix = index_in_range [OF this]
    from ix(2) assms(3) have "unat i < length values" by linarith
    with v ix have "values_out r ! unat i = fst (entry bf arg i)" by simp
    then show "values_out r ! unat i =
                   (let x = translate_x bf arg i in
                    if x < 0 \<or> x > intrinsicIntervalMax bf then 0
                    else fst (getValueAndDerivatives (waveletGrid bf) x))"
      by (simp add: entry_def Let_def)
  qed
  ultimately show ?thesis using r by blast
qed

theorem outside_interval_zero_derivs_witness:
  "(2 < intervalMin bf_N2 \<or> intervalMax bf_N2 < 2)
   \<and> 0 < getNumberOfBasisFunctions bf_N2
   \<and> unat (getNumberOfBasisFunctions bf_N2) \<le> length [7, 7, 7, 7, 7 :: real]
   \<and> (\<exists>r. getAllValues bf_N2 2 [7, 7, 7, 7, 7] [7, 7, 7, 7, 7] = Inr r
         \<and> \<not> inside_range r \<and> argT r = 1
         \<and> derivs_out r = [0, 0, 0, 0, 0]
         \<and> values_out r ! 0 = 1)"
proof -
  have h1: "2 < intervalMin bf_N2 \<or> intervalMax bf_N2 < 2"
    and h2: "0 < getNumberOfBasisFunctions bf_N2"
    and h3: "unat (getNumberOfBasisFunctions bf_N2) \<le> length [7, 7, 7, 7, 7 :: real]"
    by (simp_all add: bf_N2_def)
  from outside_interval_zero_derivs [OF h1 h2 h3 h3]
  obtain r where r: "getAllValues bf_N2 2 [7, 7, 7, 7, 7] [7, 7, 7, 7, 7] = Inr r"
    and "\<not> inside_range r"
    and "argT r = (if 2 < intervalMin bf_N2 then intervalMin bf_N2 else intervalMax bf_N2)"
    and "derivs_out r = replicate (length [7, 7, 7, 7, 7 :: real]) 0"
    and "values_out r ! 0 = 1"
    by blast
  moreover have "intervalMin bf_N2 = 0" "intervalMax bf_N2 = 1" by (simp_all add: bf_N2_def)
  ultimately have "getAllValues bf_N2 2 [7, 7, 7, 7, 7] [7, 7, 7, 7, 7] = Inr r
         \<and> \<not> inside_range r \<and> argT r = 1
         \<and> derivs_out r = [0, 0, 0, 0, 0]
         \<and> values_out r ! 0 = 1"
    by simp
  then show ?thesis using h1 h2 h3 by blast
qed

text \<open>
  C6. For an index \<open>i\<close> with \<open>1 \<le> i < getNumberOfBasisFunctions()\<close> the translate is
  \<open>k = i - N\<close> as an integer (the \<open>unsigned\<close> difference read as \<open>int\<close>, for an order and
  an index below \<open>2\<^sup>3\<^sup>1\<close>), and the local coordinate is
  \<open>x = (arg - min) * scale - k\<close> with \<open>scale = intervalDerivf()\<close>. When \<open>x\<close> passes the
  test of line 137, that is \<open>0 \<le> x \<le> intrinsicIntervalMax()\<close> (which contains the
  support \<open>[0, 2N-1)\<close> of the specification for an object built by the constructor), the
  lookup at \<open>x\<close> is performed, the loop sets \<open>values[i]\<close> to the tabulated value and
  \<open>derivs[i]\<close> to the tabulated derivative times \<open>scale\<close>. The call returns
  \<open>values[i]\<close> so; it returns \<open>derivs[i]\<close> so when \<open>inside_range\<close> is true, and as
  \<open>0.0\<close> after the zeroing of line 148 otherwise.
\<close>

theorem translate_lookup:
  assumes "1 \<le> i" and "i < getNumberOfBasisFunctions bf"
    and "unat i < 2 ^ 31" and "unat (getOrder bf) < 2 ^ 31"
    and "unat (getNumberOfBasisFunctions bf) \<le> length values"
    and "unat (getNumberOfBasisFunctions bf) \<le> length derivs"
    and "x = (arg - intervalMin bf) * intervalDerivf bf
               - real_of_int (int (unat i) - int (unat (getOrder bf)))"
    and "0 \<le> x" and "x \<le> intrinsicIntervalMax bf"
  shows "translate_k bf i = int (unat i) - int (unat (getOrder bf))
         \<and> translate_x bf arg i = x
         \<and> (\<exists>s r. wavelet_loop bf arg 1
                      \<lparr>values_vec = values[0 := 1], derivs_vec = derivs[0 := 0],
                       lookups = []\<rparr> = Inr s
                \<and> values_vec s ! unat i = fst (getValueAndDerivatives (waveletGrid bf) x)
                \<and> derivs_vec s ! unat i =
                    snd (getValueAndDerivatives (waveletGrid bf) x) * intervalDerivf bf
                \<and> getAllValues bf arg values derivs = Inr r
                \<and> (i, x) \<in> set (lookups_out r)
                \<and> values_out r ! unat i = fst (getValueAndDerivatives (waveletGrid bf) x)
                \<and> derivs_out r ! unat i =
                    (if inside_range r
                     then snd (getValueAndDerivatives (waveletGrid bf) x) * intervalDerivf bf
                     else 0))"
proof -
  let ?n = "getNumberOfBasisFunctions bf"
  let ?tab = "getValueAndDerivatives (waveletGrid bf)"
  note ix = index_in_range [OF assms(1,2)]
  have k: "translate_k bf i = int (unat i) - int (unat (getOrder bf))"
    unfolding translate_k_def using assms(3,4) by (rule sint_sub)
  have x: "translate_x bf arg i = x"
    by (simp add: translate_x_def k assms(7))
  have e: "entry bf arg i = (fst (?tab x), snd (?tab x) * intervalDerivf bf)"
    using assms(8,9) by (simp add: entry_def x)
  have n0: "0 < ?n" using ix(2) by (simp add: word_less_nat_alt)
  have pos: "0 < length values" "0 < length derivs"
    using presized_nonempty [OF n0 assms(5)] presized_nonempty [OF n0 assms(6)] .
  have iv: "unat i < length values" and id: "unat i < length derivs"
    using ix(2) assms(5,6) by linarith+
  let ?s0 = "\<lparr>values_vec = values[0 := 1], derivs_vec = derivs[0 := 0], lookups = []\<rparr>"
  have "unat ?n \<le> length (values_vec ?s0)" "unat ?n \<le> length (derivs_vec ?s0)"
    using assms(5,6) by simp_all
  from wavelet_loop_ok [OF this, of arg 1]
  obtain s where s: "wavelet_loop bf arg 1 ?s0 = Inr s"
    and sv: "\<forall>j < length (values_vec ?s0). values_vec s ! j =
              (if unat (1::unsigned) \<le> j \<and> j < unat ?n
               then fst (entry bf arg (of_nat j)) else values_vec ?s0 ! j)"
    and sd: "\<forall>j < length (derivs_vec ?s0). derivs_vec s ! j =
              (if unat (1::unsigned) \<le> j \<and> j < unat ?n
               then snd (entry bf arg (of_nat j)) else derivs_vec ?s0 ! j)"
    by blast
  have s1: "values_vec s ! unat i = fst (?tab x)"
    using sv iv ix by (simp add: e)
  have s2: "derivs_vec s ! unat i = snd (?tab x) * intervalDerivf bf"
    using sd id ix by (simp add: e)
  from getAllValues_ok [OF pos assms(5,6), of arg]
  obtain r where r: "getAllValues bf arg values derivs = Inr r"
    and b: "inside_range r = snd (checkIfArgumentInsideInterval bf arg)"
    and v: "\<forall>j < length values. values_out r ! j =
              (if j = 0 then 1
               else if j < unat ?n then fst (entry bf arg (of_nat j)) else values ! j)"
    and d: "\<forall>j < length derivs. derivs_out r ! j =
              (if \<not> snd (checkIfArgumentInsideInterval bf arg) then 0
               else if j = 0 then 0
               else if j < unat ?n then snd (entry bf arg (of_nat j)) else derivs ! j)"
    and l: "lookups_out r =
              concat (map (\<lambda>j. lookup_at bf arg (of_nat j)) [1 ..< unat ?n])"
    by blast
  have r1: "values_out r ! unat i = fst (?tab x)"
    using v iv ix by (simp add: e)
  have r2: "derivs_out r ! unat i =
              (if inside_range r then snd (?tab x) * intervalDerivf bf else 0)"
    using d id ix b by (simp add: e)
  have r3: "(i, x) \<in> set (lookups_out r)"
    unfolding l lookup_performed_iff [OF assms(1,2)] using x assms(8,9) by simp
  from k x s s1 s2 r r1 r2 r3 show ?thesis by blast
qed

theorem translate_lookup_witness:
  "1 \<le> (2::unsigned) \<and> 2 < getNumberOfBasisFunctions bf_N2
   \<and> unat (2::unsigned) < 2 ^ 31 \<and> unat (getOrder bf_N2) < 2 ^ 31
   \<and> unat (getNumberOfBasisFunctions bf_N2) \<le> length [7, 7, 7, 7, 7 :: real]
   \<and> (2::real) = (1 / 2 - intervalMin bf_N2) * intervalDerivf bf_N2
                    - real_of_int (int (unat (2::unsigned)) - int (unat (getOrder bf_N2)))
   \<and> (0::real) \<le> 2 \<and> 2 \<le> intrinsicIntervalMax bf_N2
   \<and> translate_k bf_N2 2 = 0 \<and> translate_x bf_N2 (1 / 2) 2 = 2
   \<and> (\<exists>r. getAllValues bf_N2 (1 / 2) [7, 7, 7, 7, 7] [7, 7, 7, 7, 7] = Inr r
          \<and> (2, 2) \<in> set (lookups_out r)
          \<and> values_out r ! 2 = 4
          \<and> derivs_out r ! 2 = (if inside_range r then 16 else 0))"
proof -
  have h1: "1 \<le> (2::unsigned)" and h2: "2 < getNumberOfBasisFunctions bf_N2"
    and h3: "unat (2::unsigned) < 2 ^ 31" and h4: "unat (getOrder bf_N2) < 2 ^ 31"
    and h5: "unat (getNumberOfBasisFunctions bf_N2) \<le> length [7, 7, 7, 7, 7 :: real]"
    and h6: "(2::real) = (1 / 2 - intervalMin bf_N2) * intervalDerivf bf_N2
                    - real_of_int (int (unat (2::unsigned)) - int (unat (getOrder bf_N2)))"
    and h7: "(0::real) \<le> 2" and h8: "2 \<le> intrinsicIntervalMax bf_N2"
    by (simp_all add: bf_N2_def)
  have tab: "getValueAndDerivatives (waveletGrid bf_N2) 2 = (4, 4)"
    and scale: "intervalDerivf bf_N2 = 4" and N: "unat (getOrder bf_N2) = 2"
    by (simp_all add: bf_N2_def example_table_def)
  from translate_lookup [OF h1 h2 h3 h4 h5 h5 h6 h7 h8]
  have "translate_k bf_N2 2 = 0 \<and> translate_x bf_N2 (1 / 2) 2 = 2
   \<and> (\<exists>r. getAllValues bf_N2 (1 / 2) [7, 7, 7, 7, 7] [7, 7, 7, 7, 7] = Inr r
          \<and> (2, 2) \<in> set (lookups_out r)
          \<and> values_out r ! 2 = 4
          \<and> derivs_out r ! 2 = (if inside_range r then 16 else 0))"
    unfolding tab scale N by auto
  then show ?thesis using h1 h2 h3 h4 h5 h6 h7 h8 by blast
qed

text \<open>
  C10. The test of line 137 is strict on both sides and its upper bound is
  \<open>intrinsicIntervalMax()\<close>, which the constructor sets to \<open>3N-2\<close>. For an object built
  by the constructor and an index \<open>i\<close> with \<open>1 \<le> i < getNumberOfBasisFunctions()\<close>, with
  local coordinate \<open>x\<close>: the lookup for \<open>i\<close> is performed exactly when
  \<open>0 \<le> x \<le> 3N-2\<close>, so in particular at \<open>x = 0\<close> and at \<open>x = 3N-2\<close>, where
  \<open>values[i]\<close> is the tabulated value; and \<open>values[i]\<close> and \<open>derivs[i]\<close> are zeroed
  without a lookup exactly when \<open>x < 0\<close> or \<open>x > 3N-2\<close>.
\<close>

theorem strict_support_test:
  assumes "BF_DbWavelets_ctor table ao = Some (Inr bf)"
    and "1 \<le> unat (ORDER ao)" and "3 * unat (ORDER ao) \<le> 2 ^ 32"
    and "1 \<le> i" and "i < getNumberOfBasisFunctions bf"
    and "unat (getNumberOfBasisFunctions bf) \<le> length values"
    and "unat (getNumberOfBasisFunctions bf) \<le> length derivs"
    and "x = translate_x bf arg i"
  shows "intrinsicIntervalMax bf = real (3 * unat (ORDER ao) - 2)
         \<and> (\<exists>r. getAllValues bf arg values derivs = Inr r
               \<and> ((i, x) \<in> set (lookups_out r)
                    \<longleftrightarrow> 0 \<le> x \<and> x \<le> real (3 * unat (ORDER ao) - 2))
               \<and> (i \<in> fst ` set (lookups_out r)
                    \<longleftrightarrow> \<not> (x < 0 \<or> x > real (3 * unat (ORDER ao) - 2)))
               \<and> (x < 0 \<or> x > real (3 * unat (ORDER ao) - 2)
                    \<longrightarrow> values_out r ! unat i = 0 \<and> derivs_out r ! unat i = 0)
               \<and> (x = 0 \<or> x = real (3 * unat (ORDER ao) - 2)
                    \<longrightarrow> (i, x) \<in> set (lookups_out r)
                        \<and> values_out r ! unat i =
                            fst (getValueAndDerivatives (waveletGrid bf) x)))"
proof -
  let ?n = "getNumberOfBasisFunctions bf"
  let ?m = "real (3 * unat (ORDER ao) - 2)"
  note ix = index_in_range [OF assms(4,5)]
  have imax: "intrinsicIntervalMax bf = ?m"
    by (simp only: ctor_fields(5) [OF assms(1)] unat_nbasis(2) [OF assms(2,3)])
  have n0: "0 < ?n" using ix(2) by (simp add: word_less_nat_alt)
  have pos: "0 < length values" "0 < length derivs"
    using presized_nonempty [OF n0 assms(6)] presized_nonempty [OF n0 assms(7)] .
  have iv: "unat i < length values" and id: "unat i < length derivs"
    using ix(2) assms(6,7) by linarith+
  from getAllValues_ok [OF pos assms(6,7), of arg]
  obtain r where r: "getAllValues bf arg values derivs = Inr r"
    and v: "\<forall>j < length values. values_out r ! j =
              (if j = 0 then 1
               else if j < unat ?n then fst (entry bf arg (of_nat j)) else values ! j)"
    and d: "\<forall>j < length derivs. derivs_out r ! j =
              (if \<not> snd (checkIfArgumentInsideInterval bf arg) then 0
               else if j = 0 then 0
               else if j < unat ?n then snd (entry bf arg (of_nat j)) else derivs ! j)"
    and l: "lookups_out r =
              concat (map (\<lambda>j. lookup_at bf arg (of_nat j)) [1 ..< unat ?n])"
    by blast
  have mem: "(i, y) \<in> set (lookups_out r) \<longleftrightarrow> y = x \<and> 0 \<le> y \<and> y \<le> ?m" for y
    unfolding l lookup_performed_iff [OF assms(4,5)] assms(8) imax ..
  have c1: "(i, x) \<in> set (lookups_out r) \<longleftrightarrow> 0 \<le> x \<and> x \<le> ?m"
    using mem by simp
  have c2: "i \<in> fst ` set (lookups_out r) \<longleftrightarrow> \<not> (x < 0 \<or> x > ?m)"
  proof
    assume "i \<in> fst ` set (lookups_out r)"
    then obtain y where "(i, y) \<in> set (lookups_out r)" by auto
    with mem show "\<not> (x < 0 \<or> x > ?m)" by auto
  next
    assume "\<not> (x < 0 \<or> x > ?m)"
    with c1 have "(i, x) \<in> set (lookups_out r)" by simp
    then show "i \<in> fst ` set (lookups_out r)" by force
  qed
  have vi: "values_out r ! unat i = fst (entry bf arg i)"
    using v iv ix by simp
  have di: "derivs_out r ! unat i =
      (if \<not> snd (checkIfArgumentInsideInterval bf arg) then 0 else snd (entry bf arg i))"
    using d id ix by simp
  have c3: "x < 0 \<or> x > ?m \<longrightarrow> values_out r ! unat i = 0 \<and> derivs_out r ! unat i = 0"
    using vi di by (auto simp: entry_def Let_def imax assms(8))
  have c4: "x = 0 \<or> x = ?m \<longrightarrow> (i, x) \<in> set (lookups_out r)
              \<and> values_out r ! unat i = fst (getValueAndDerivatives (waveletGrid bf) x)"
  proof
    assume "x = 0 \<or> x = ?m"
    then have in_range: "0 \<le> x \<and> x \<le> ?m" by auto
    then have "values_out r ! unat i = fst (getValueAndDerivatives (waveletGrid bf) x)"
      using vi by (auto simp: entry_def Let_def imax assms(8))
    with in_range c1 show "(i, x) \<in> set (lookups_out r)
              \<and> values_out r ! unat i = fst (getValueAndDerivatives (waveletGrid bf) x)"
      by simp
  qed
  from imax r c1 c2 c3 c4 show ?thesis by blast
qed

theorem strict_support_test_witness:
  "BF_DbWavelets_ctor example_table options_N2 = Some (Inr bf_N2)
   \<and> 1 \<le> unat (ORDER options_N2) \<and> 3 * unat (ORDER options_N2) \<le> 2 ^ 32
   \<and> 1 \<le> (1::unsigned) \<and> 1 < getNumberOfBasisFunctions bf_N2
   \<and> unat (getNumberOfBasisFunctions bf_N2) \<le> length [7, 7, 7, 7, 7 :: real]
   \<and> 4 = translate_x bf_N2 (3 / 4) 1
   \<and> intrinsicIntervalMax bf_N2 = 4
   \<and> (\<exists>r. getAllValues bf_N2 (3 / 4) [7, 7, 7, 7, 7] [7, 7, 7, 7, 7] = Inr r
          \<and> (1, 4) \<in> set (lookups_out r) \<and> values_out r ! 1 = 16)"
proof -
  have h2: "1 \<le> unat (ORDER options_N2)" and h3: "3 * unat (ORDER options_N2) \<le> 2 ^ 32"
    by (simp_all add: options_N2_def)
  have h4: "1 \<le> (1::unsigned)" and h5: "1 < getNumberOfBasisFunctions bf_N2"
    and h6: "unat (getNumberOfBasisFunctions bf_N2) \<le> length [7, 7, 7, 7, 7 :: real]"
    and h7: "4 = translate_x bf_N2 (3 / 4) 1"
    by (simp_all add: bf_N2_def translate_x_def translate_k_def)
  have m: "real (3 * unat (ORDER options_N2) - 2) = 4" by (simp add: options_N2_def)
  have tab: "fst (getValueAndDerivatives (waveletGrid bf_N2) 4) = 16"
    by (simp add: bf_N2_def example_table_def)
  from strict_support_test [OF ctor_N2 h2 h3 h4 h5 h6 h6 h7]
  have "intrinsicIntervalMax bf_N2 = 4
   \<and> (\<exists>r. getAllValues bf_N2 (3 / 4) [7, 7, 7, 7, 7] [7, 7, 7, 7, 7] = Inr r
          \<and> (1, 4) \<in> set (lookups_out r) \<and> values_out r ! 1 = 16)"
    unfolding m tab by auto
  then show ?thesis using ctor_N2 h2 h3 h4 h5 h6 h7 by blast
qed

text \<open>
  C7. For every valid order \<open>N\<close> (at least 1, with \<open>3N\<close> within the range of
  \<open>unsigned\<close>) and a requested grid size other than 0, construction succeeds and the object
  has \<open>3N - 1\<close> basis functions; order 2 gives 5. \<open>getAllValues\<close> is a \<open>const\<close> method:
  it takes the object and returns the outputs only, so no call changes the count.
\<close>

theorem basis_count:
  assumes "1 \<le> unat (ORDER ao)" and "3 * unat (ORDER ao) \<le> 2 ^ 32"
    and "GRID_SIZE ao \<noteq> Some 0"
  shows "\<exists>bf. BF_DbWavelets_ctor table ao = Some (Inr bf)
           \<and> getOrder bf = ORDER ao
           \<and> unat (getNumberOfBasisFunctions bf) = 3 * unat (ORDER ao) - 1"
proof -
  from ctor_ok [OF assms(1,3)]
  obtain bf where bf: "BF_DbWavelets_ctor table ao = Some (Inr bf)" by blast
  have "unat (getNumberOfBasisFunctions bf) = 3 * unat (ORDER ao) - 1"
    by (simp only: ctor_fields(2) [OF bf] unat_nbasis(1) [OF assms(1,2)])
  with bf ctor_fields(1) [OF bf] show ?thesis by blast
qed

theorem basis_count_witness:
  "1 \<le> unat (ORDER options_N2) \<and> 3 * unat (ORDER options_N2) \<le> 2 ^ 32
   \<and> GRID_SIZE options_N2 \<noteq> Some 0
   \<and> BF_DbWavelets_ctor example_table options_N2 = Some (Inr bf_N2)
   \<and> unat (getNumberOfBasisFunctions bf_N2) = 5"
proof -
  have h1: "1 \<le> unat (ORDER options_N2)" and h2: "3 * unat (ORDER options_N2) \<le> 2 ^ 32"
    and h3: "GRID_SIZE options_N2 \<noteq> Some 0"
    by (simp_all add: options_N2_def)
  from basis_count [OF h1 h2 h3, of example_table]
  have "unat (getNumberOfBasisFunctions bf_N2) = 3 * unat (ORDER options_N2) - 1"
    by (simp add: ctor_N2)
  then have "unat (getNumberOfBasisFunctions bf_N2) = 5" by (simp add: options_N2_def)
  then show ?thesis using h1 h2 h3 ctor_N2 by blast
qed

text \<open>
  C8. For every order \<open>N \<ge> 1\<close> and requested grid size \<open>R \<ge> 1\<close> the grid builder returns
  a grid whose number of bins is \<open>G = (2N-1) * 2\<^sup>n\<close> with \<open>G \<ge> R\<close> and \<open>n\<close> the
  smallest such exponent; order 4 with requested size 1000 gives \<open>7 * 256 = 1792\<close>.
\<close>

theorem true_grid_size:
  assumes "1 \<le> N" and "1 \<le> R"
  shows "\<exists>g n. setupGrid table N R dowavelet = Some (Inr g)
           \<and> getNbin g = (2 * N - 1) * 2 ^ n
           \<and> R \<le> getNbin g
           \<and> (\<forall>m<n. (2 * N - 1) * 2 ^ m < R)"
proof -
  from setupGrid_ok [OF assms, of table dowavelet]
  obtain g n where "setupGrid table N R dowavelet = Some (Inr g)"
    and "getNbin g = (2 * N - 1) * 2 ^ n"
    and "R \<le> (2 * N - 1) * 2 ^ n"
    and "\<forall>m<n. (2 * N - 1) * 2 ^ m < R"
    by blast
  then show ?thesis by (intro exI[of _ g] exI[of _ n]) simp
qed

theorem true_grid_size_witness:
  "1 \<le> (4::nat) \<and> 1 \<le> (1000::nat)
   \<and> (\<exists>g n. setupGrid example_table 4 1000 True = Some (Inr g)
          \<and> getNbin g = (2 * 4 - 1) * 2 ^ n
          \<and> 1000 \<le> getNbin g
          \<and> (\<forall>m<n. (2 * 4 - 1) * 2 ^ m < (1000::nat)))
   \<and> setupGrid example_table 4 1000 True =
        Some (Inr \<lparr>getNbin = 7 * 256,
                   getValueAndDerivatives = example_table 4 1792 True\<rparr>)"
proof -
  have h1: "1 \<le> (4::nat)" and h2: "1 \<le> (1000::nat)" by simp_all
  have "setupGrid example_table 4 1000 True =
        Some (Inr \<lparr>getNbin = 7 * 256,
                   getValueAndDerivatives = example_table 4 1792 True\<rparr>)"
    by (simp add: setupGrid_def refine_grid.simps)
  with true_grid_size [OF h1 h2, of example_table True] h1 h2 show ?thesis by blast
qed

text \<open>
  C2, as the code has it. The two size assertions are commented out (lines 124 and 125)
  and nothing else compares the sizes with \<open>getNumberOfBasisFunctions()\<close>. A call on
  vectors that hold at least that many entries, exactly so or more, returns normally: the
  vectors keep their sizes and the entries of \<open>values\<close> from index
  \<open>getNumberOfBasisFunctions()\<close> on are left as they were. The claim fails for order 2
  (5 basis functions) on vectors of size 6.
\<close>

theorem unchecked_sizes:
  assumes "0 < getNumberOfBasisFunctions bf"
    and "unat (getNumberOfBasisFunctions bf) \<le> length values"
    and "unat (getNumberOfBasisFunctions bf) \<le> length derivs"
  shows "\<exists>r. getAllValues bf arg values derivs = Inr r
           \<and> length (values_out r) = length values
           \<and> length (derivs_out r) = length derivs
           \<and> (\<forall>j. unat (getNumberOfBasisFunctions bf) \<le> j \<and> j < length values
                 \<longrightarrow> values_out r ! j = values ! j)"
proof -
  have pos: "0 < length values" "0 < length derivs"
    using presized_nonempty [OF assms(1,2)] presized_nonempty [OF assms(1,3)] .
  have n0: "0 < unat (getNumberOfBasisFunctions bf)"
    using assms(1) by (simp add: word_less_nat_alt)
  from getAllValues_ok [OF pos assms(2,3), of arg]
  obtain r where r: "getAllValues bf arg values derivs = Inr r"
    and lv: "length (values_out r) = length values"
    and ld: "length (derivs_out r) = length derivs"
    and v: "\<forall>j < length values. values_out r ! j =
              (if j = 0 then 1
               else if j < unat (getNumberOfBasisFunctions bf)
               then fst (entry bf arg (of_nat j)) else values ! j)"
    by blast
  have "\<forall>j. unat (getNumberOfBasisFunctions bf) \<le> j \<and> j < length values
                 \<longrightarrow> values_out r ! j = values ! j"
    using v n0 by auto
  with r lv ld show ?thesis by blast
qed

theorem unchecked_sizes_witness:
  "0 < getNumberOfBasisFunctions bf_N2
   \<and> unat (getNumberOfBasisFunctions bf_N2) \<le> length [7, 7, 7, 7, 7, 7 :: real]
   \<and> (\<exists>r. getAllValues bf_N2 (1 / 2) [7, 7, 7, 7, 7, 7] [7, 7, 7, 7, 7, 7] = Inr r
          \<and> length (values_out r) = 6 \<and> length (derivs_out r) = 6
          \<and> values_out r ! 5 = 7)"
proof -
  have h1: "0 < getNumberOfBasisFunctions bf_N2"
    and h2: "unat (getNumberOfBasisFunctions bf_N2) \<le> length [7, 7, 7, 7, 7, 7 :: real]"
    by (simp_all add: bf_N2_def)
  have n: "unat (getNumberOfBasisFunctions bf_N2) = 5" by (simp add: bf_N2_def)
  from unchecked_sizes [OF h1 h2 h2, of "1 / 2"]
  obtain r where r: "getAllValues bf_N2 (1 / 2) [7, 7, 7, 7, 7, 7] [7, 7, 7, 7, 7, 7] = Inr r"
    and "length (values_out r) = length [7, 7, 7, 7, 7, 7 :: real]"
    and "length (derivs_out r) = length [7, 7, 7, 7, 7, 7 :: real]"
    and rest: "\<forall>j. unat (getNumberOfBasisFunctions bf_N2) \<le> j
                  \<and> j < length [7, 7, 7, 7, 7, 7 :: real]
                 \<longrightarrow> values_out r ! j = [7, 7, 7, 7, 7, 7 :: real] ! j"
    by blast
  moreover from rest n have "values_out r ! 5 = 7" by simp
  ultimately have "getAllValues bf_N2 (1 / 2) [7, 7, 7, 7, 7, 7] [7, 7, 7, 7, 7, 7] = Inr r
          \<and> length (values_out r) = 6 \<and> length (derivs_out r) = 6
          \<and> values_out r ! 5 = 7"
    by simp
  then show ?thesis using h1 h2 by blast
qed

theorem unchecked_sizes_counterexample:
  "BF_DbWavelets_ctor example_table options_N2 = Some (Inr bf_N2)
   \<and> unat (getNumberOfBasisFunctions bf_N2) = 5
   \<and> length [7, 7, 7, 7, 7, 7 :: real] = 6
   \<and> getAllValues bf_N2 (1 / 2) [7, 7, 7, 7, 7, 7] [7, 7, 7, 7, 7, 7] =
       Inr \<lparr>argT = 1 / 2, inside_range = True,
            values_out = [1, 9, 4, 1, 0, 7],
            derivs_out = [0, 24, 16, 8, 0, 7],
            lookups_out = [(1, 3), (2, 2), (3, 1), (4, 0)]\<rparr>"
proof -
  have "getAllValues bf_N2 (1 / 2) [7, 7, 7, 7, 7, 7] [7, 7, 7, 7, 7, 7] =
       Inr \<lparr>argT = 1 / 2, inside_range = True,
            values_out = [1, 9, 4, 1, 0, 7],
            derivs_out = [0, 24, 16, 8, 0, 7],
            lookups_out = [(1, 3), (2, 2), (3, 1), (4, 0)]\<rparr>"
    by (simp add: getAllValues_def bf_N2_def checkIfArgumentInsideInterval_def store_def
        wavelet_loop.simps loop_body_def translate_x_def translate_k_def example_table_def)
  moreover have "unat (getNumberOfBasisFunctions bf_N2) = 5" by (simp add: bf_N2_def)
  ultimately show ?thesis using ctor_N2 by simp
qed

text \<open>
  C1, on the code. For order 2 on \<open>[0, 1]\<close> the support of the specification is
  \<open>[0, 3)\<close> while \<open>intrinsicIntervalMax()\<close> is 4. At \<open>arg = 0.75\<close> the local
  coordinates of the indices 1 and 2 are 4 and 3, both outside \<open>[0, 3)\<close>; the test of
  line 137 lets both through, the table is looked up there and its values are stored.
\<close>

theorem lookup_beyond_support:
  "BF_DbWavelets_ctor example_table options_N2 = Some (Inr bf_N2)
   \<and> translate_x bf_N2 (3 / 4) 1 = 4
   \<and> translate_x bf_N2 (3 / 4) 2 = 3
   \<and> real (2 * unat (getOrder bf_N2) - 1) = 3
   \<and> getAllValues bf_N2 (3 / 4) [7, 7, 7, 7, 7] [7, 7, 7, 7, 7] =
       Inr \<lparr>argT = 3 / 4, inside_range = True,
            values_out = [1, 16, 9, 4, 1],
            derivs_out = [0, 32, 24, 16, 8],
            lookups_out = [(1, 4), (2, 3), (3, 2), (4, 1)]\<rparr>"
proof -
  have "getAllValues bf_N2 (3 / 4) [7, 7, 7, 7, 7] [7, 7, 7, 7, 7] =
       Inr \<lparr>argT = 3 / 4, inside_range = True,
            values_out = [1, 16, 9, 4, 1],
            derivs_out = [0, 32, 24, 16, 8],
            lookups_out = [(1, 4), (2, 3), (3, 2), (4, 1)]\<rparr>"
    by (simp add: getAllValues_def bf_N2_def checkIfArgumentInsideInterval_def store_def
        wavelet_loop.simps loop_body_def translate_x_def translate_k_def example_table_def)
  moreover have "translate_x bf_N2 (3 / 4) 1 = 4" "translate_x bf_N2 (3 / 4) 2 = 3"
    "real (2 * unat (getOrder bf_N2) - 1) = 3"
    by (simp_all add: bf_N2_def translate_x_def translate_k_def)
  ultimately show ?thesis using ctor_N2 by simp
qed

text \<open>
  C9. A call writes every entry \<open>0 .. getNumberOfBasisFunctions()-1\<close> of both vectors
  before it returns, with a value that the object and the argument determine: 1 and 0 at
  index 0, and at an index \<open>j \<ge> 1\<close> zero or the tabulated value (the tabulated derivative
  times \<open>intervalDerivf()\<close>, or zero when the argument is out of range) at the local
  coordinate of \<open>j\<close>. So two calls on the same object with the same argument, on vectors
  with arbitrary contents that hold at least \<open>getNumberOfBasisFunctions()\<close> entries, both
  return, the vectors keep their sizes, and the calls agree on the mapped argument, the
  flag, the lookups and the entries \<open>0 .. getNumberOfBasisFunctions()-1\<close> of \<open>values\<close>
  and of \<open>derivs\<close>; for vectors of exactly that size the whole results are equal.
\<close>

theorem outputs_independent_of_initial_contents:
  assumes "0 < getNumberOfBasisFunctions bf"
    and "unat (getNumberOfBasisFunctions bf) \<le> length values1"
    and "unat (getNumberOfBasisFunctions bf) \<le> length derivs1"
    and "unat (getNumberOfBasisFunctions bf) \<le> length values2"
    and "unat (getNumberOfBasisFunctions bf) \<le> length derivs2"
  shows "\<exists>r1 r2. getAllValues bf arg values1 derivs1 = Inr r1
           \<and> getAllValues bf arg values2 derivs2 = Inr r2
           \<and> argT r1 = argT r2
           \<and> inside_range r1 = inside_range r2
           \<and> lookups_out r1 = lookups_out r2
           \<and> take (unat (getNumberOfBasisFunctions bf)) (values_out r1) =
               take (unat (getNumberOfBasisFunctions bf)) (values_out r2)
           \<and> take (unat (getNumberOfBasisFunctions bf)) (derivs_out r1) =
               take (unat (getNumberOfBasisFunctions bf)) (derivs_out r2)
           \<and> (length values1 = unat (getNumberOfBasisFunctions bf)
                \<and> length values2 = unat (getNumberOfBasisFunctions bf)
                \<and> length derivs1 = unat (getNumberOfBasisFunctions bf)
                \<and> length derivs2 = unat (getNumberOfBasisFunctions bf)
               \<longrightarrow> r1 = r2)
           \<and> (argT r1, inside_range r1) = checkIfArgumentInsideInterval bf arg
           \<and> length (values_out r1) = length values1
           \<and> length (derivs_out r1) = length derivs1
           \<and> length (values_out r2) = length values2
           \<and> length (derivs_out r2) = length derivs2
           \<and> (\<forall>j < unat (getNumberOfBasisFunctions bf).
                 values_out r1 ! j =
                   (if j = 0 then 1
                    else let x = translate_x bf arg (of_nat j) in
                         if x < 0 \<or> x > intrinsicIntervalMax bf then 0
                         else fst (getValueAndDerivatives (waveletGrid bf) x))
                 \<and> derivs_out r1 ! j =
                   (if \<not> inside_range r1 \<or> j = 0 then 0
                    else let x = translate_x bf arg (of_nat j) in
                         if x < 0 \<or> x > intrinsicIntervalMax bf then 0
                         else snd (getValueAndDerivatives (waveletGrid bf) x)
                                * intervalDerivf bf)
                 \<and> values_out r2 ! j = values_out r1 ! j
                 \<and> derivs_out r2 ! j = derivs_out r1 ! j)"
proof -
  let ?n = "unat (getNumberOfBasisFunctions bf)"
  let ?chk = "checkIfArgumentInsideInterval bf arg"
  let ?L = "concat (map (\<lambda>j. lookup_at bf arg (of_nat j)) [1 ..< ?n])"
  let ?V = "\<lambda>j. if j = 0 then 1
               else let x = translate_x bf arg (of_nat j) in
                    if x < 0 \<or> x > intrinsicIntervalMax bf then 0
                    else fst (getValueAndDerivatives (waveletGrid bf) x)"
  let ?D = "\<lambda>j. if \<not> snd ?chk \<or> j = 0 then 0
               else let x = translate_x bf arg (of_nat j) in
                    if x < 0 \<or> x > intrinsicIntervalMax bf then 0
                    else snd (getValueAndDerivatives (waveletGrid bf) x) * intervalDerivf bf"
  from written_entries [OF assms(1,2,3), of arg]
  obtain r1 where r1: "getAllValues bf arg values1 derivs1 = Inr r1"
    and a1: "argT r1 = fst ?chk" and b1: "inside_range r1 = snd ?chk"
    and l1: "lookups_out r1 = ?L"
    and lv1: "length (values_out r1) = length values1"
    and ld1: "length (derivs_out r1) = length derivs1"
    and e1: "\<forall>j < ?n. values_out r1 ! j = ?V j \<and> derivs_out r1 ! j = ?D j"
    by blast
  from written_entries [OF assms(1,4,5), of arg]
  obtain r2 where r2: "getAllValues bf arg values2 derivs2 = Inr r2"
    and a2: "argT r2 = fst ?chk" and b2: "inside_range r2 = snd ?chk"
    and l2: "lookups_out r2 = ?L"
    and lv2: "length (values_out r2) = length values2"
    and ld2: "length (derivs_out r2) = length derivs2"
    and e2: "\<forall>j < ?n. values_out r2 ! j = ?V j \<and> derivs_out r2 ! j = ?D j"
    by blast
  have tv: "take ?n (values_out r1) = take ?n (values_out r2)"
  proof (rule nth_take_lemma)
    show "?n \<le> length (values_out r1)" using lv1 assms(2) by simp
    show "?n \<le> length (values_out r2)" using lv2 assms(4) by simp
    fix j
    show "j < ?n \<longrightarrow> values_out r1 ! j = values_out r2 ! j"
      using e1 e2 by simp
  qed
  have td: "take ?n (derivs_out r1) = take ?n (derivs_out r2)"
  proof (rule nth_take_lemma)
    show "?n \<le> length (derivs_out r1)" using ld1 assms(3) by simp
    show "?n \<le> length (derivs_out r2)" using ld2 assms(5) by simp
    fix j
    show "j < ?n \<longrightarrow> derivs_out r1 ! j = derivs_out r2 ! j"
      using e1 e2 by simp
  qed
  have whole: "length values1 = ?n \<and> length values2 = ?n
                \<and> length derivs1 = ?n \<and> length derivs2 = ?n \<longrightarrow> r1 = r2"
  proof
    assume sz: "length values1 = ?n \<and> length values2 = ?n
                \<and> length derivs1 = ?n \<and> length derivs2 = ?n"
    from sz lv1 lv2 tv have "values_out r1 = values_out r2" by simp
    moreover from sz ld1 ld2 td have "derivs_out r1 = derivs_out r2" by simp
    ultimately show "r1 = r2" using a1 a2 b1 b2 l1 l2 by simp
  qed
  have chk: "(argT r1, inside_range r1) = ?chk" using a1 b1 by simp
  have ent: "\<forall>j < ?n.
                 values_out r1 ! j = ?V j
                 \<and> derivs_out r1 ! j =
                   (if \<not> inside_range r1 \<or> j = 0 then 0
                    else let x = translate_x bf arg (of_nat j) in
                         if x < 0 \<or> x > intrinsicIntervalMax bf then 0
                         else snd (getValueAndDerivatives (waveletGrid bf) x)
                                * intervalDerivf bf)
                 \<and> values_out r2 ! j = values_out r1 ! j
                 \<and> derivs_out r2 ! j = derivs_out r1 ! j"
    using e1 e2 b1 by simp
  have eqs: "argT r1 = argT r2" "inside_range r1 = inside_range r2"
    "lookups_out r1 = lookups_out r2"
    using a1 a2 b1 b2 l1 l2 by simp_all
  show ?thesis
    apply (rule exI [of _ r1])
    apply (rule exI [of _ r2])
    apply (intro conjI)
    apply (rule r1)
    apply (rule r2)
    apply (rule eqs(1))
    apply (rule eqs(2))
    apply (rule eqs(3))
    apply (rule tv)
    apply (rule td)
    apply (rule whole)
    apply (rule chk)
    apply (rule lv1)
    apply (rule ld1)
    apply (rule lv2)
    apply (rule ld2)
    apply (rule ent)
    done
qed

theorem outputs_independent_of_initial_contents_witness:
  "0 < getNumberOfBasisFunctions bf_N2
   \<and> unat (getNumberOfBasisFunctions bf_N2) \<le> length [7, 7, 7, 7, 7 :: real]
   \<and> unat (getNumberOfBasisFunctions bf_N2) \<le> length [1, 2, 3, 4, 5 :: real]
   \<and> length [7, 7, 7, 7, 7 :: real] = unat (getNumberOfBasisFunctions bf_N2)
   \<and> length [1, 2, 3, 4, 5 :: real] = unat (getNumberOfBasisFunctions bf_N2)
   \<and> (\<exists>r. getAllValues bf_N2 (3 / 4) [7, 7, 7, 7, 7] [7, 7, 7, 7, 7] = Inr r
          \<and> getAllValues bf_N2 (3 / 4) [1, 2, 3, 4, 5] [1, 2, 3, 4, 5] = Inr r
          \<and> argT r = 3 / 4 \<and> inside_range r
          \<and> length (values_out r) = 5 \<and> length (derivs_out r) = 5
          \<and> values_out r ! 0 = 1 \<and> values_out r ! 1 = 16 \<and> values_out r ! 2 = 9
          \<and> values_out r ! 3 = 4 \<and> values_out r ! 4 = 1
          \<and> derivs_out r ! 0 = 0 \<and> derivs_out r ! 1 = 32 \<and> derivs_out r ! 2 = 24
          \<and> derivs_out r ! 3 = 16 \<and> derivs_out r ! 4 = 8)"
proof -
  have h1: "0 < getNumberOfBasisFunctions bf_N2"
    and h2: "unat (getNumberOfBasisFunctions bf_N2) \<le> length [7, 7, 7, 7, 7 :: real]"
    and h3: "unat (getNumberOfBasisFunctions bf_N2) \<le> length [1, 2, 3, 4, 5 :: real]"
    and h4: "length [7, 7, 7, 7, 7 :: real] = unat (getNumberOfBasisFunctions bf_N2)"
    and h5: "length [1, 2, 3, 4, 5 :: real] = unat (getNumberOfBasisFunctions bf_N2)"
    by (simp_all add: bf_N2_def)
  have n: "unat (getNumberOfBasisFunctions bf_N2) = 5" by (simp add: bf_N2_def)
  have chk: "checkIfArgumentInsideInterval bf_N2 (3 / 4) = (3 / 4, True)"
    by (simp add: checkIfArgumentInsideInterval_def bf_N2_def)
  have x: "translate_x bf_N2 (3 / 4) (of_nat 1) = 4" "translate_x bf_N2 (3 / 4) (of_nat 2) = 3"
    "translate_x bf_N2 (3 / 4) (of_nat 3) = 2" "translate_x bf_N2 (3 / 4) (of_nat 4) = 1"
    by (simp_all add: bf_N2_def translate_x_def translate_k_def)
  have tab: "getValueAndDerivatives (waveletGrid bf_N2) = (\<lambda>x. (x * x, 2 * x))"
    and m: "intrinsicIntervalMax bf_N2 = 4" and sc: "intervalDerivf bf_N2 = 4"
    by (simp_all add: bf_N2_def example_table_def fun_eq_iff)
  from outputs_independent_of_initial_contents [OF h1 h2 h2 h3 h3, of "3 / 4"] h4 h5
  obtain r where r1: "getAllValues bf_N2 (3 / 4) [7, 7, 7, 7, 7] [7, 7, 7, 7, 7] = Inr r"
    and r2: "getAllValues bf_N2 (3 / 4) [1, 2, 3, 4, 5] [1, 2, 3, 4, 5] = Inr r"
    and c: "(argT r, inside_range r) = checkIfArgumentInsideInterval bf_N2 (3 / 4)"
    and lv: "length (values_out r) = length [7, 7, 7, 7, 7 :: real]"
    and ld: "length (derivs_out r) = length [7, 7, 7, 7, 7 :: real]"
    and e: "\<forall>j < unat (getNumberOfBasisFunctions bf_N2).
                 values_out r ! j =
                   (if j = 0 then 1
                    else let x = translate_x bf_N2 (3 / 4) (of_nat j) in
                         if x < 0 \<or> x > intrinsicIntervalMax bf_N2 then 0
                         else fst (getValueAndDerivatives (waveletGrid bf_N2) x))
                 \<and> derivs_out r ! j =
                   (if \<not> inside_range r \<or> j = 0 then 0
                    else let x = translate_x bf_N2 (3 / 4) (of_nat j) in
                         if x < 0 \<or> x > intrinsicIntervalMax bf_N2 then 0
                         else snd (getValueAndDerivatives (waveletGrid bf_N2) x)
                                * intervalDerivf bf_N2)"
    by blast
  from c chk have a: "argT r = 3 / 4" and b: "inside_range r" by simp_all
  from e n b have e0: "values_out r ! 0 = 1 \<and> derivs_out r ! 0 = 0" by simp
  from e [rule_format, of 1] n b x(1) have e1: "values_out r ! 1 = 16 \<and> derivs_out r ! 1 = 32"
    by (simp add: tab m sc)
  from e [rule_format, of 2] n b x(2) have e2: "values_out r ! 2 = 9 \<and> derivs_out r ! 2 = 24"
    by (simp add: tab m sc)
  from e [rule_format, of 3] n b x(3) have e3: "values_out r ! 3 = 4 \<and> derivs_out r ! 3 = 16"
    by (simp add: tab m sc)
  from e [rule_format, of 4] n b x(4) have e4: "values_out r ! 4 = 1 \<and> derivs_out r ! 4 = 8"
    by (simp add: tab m sc)
  from lv ld have len: "length (values_out r) = 5" "length (derivs_out r) = 5" by simp_all
  from r1 r2 a b len e0 e1 e2 e3 e4
  have "\<exists>r. getAllValues bf_N2 (3 / 4) [7, 7, 7, 7, 7] [7, 7, 7, 7, 7] = Inr r
          \<and> getAllValues bf_N2 (3 / 4) [1, 2, 3, 4, 5] [1, 2, 3, 4, 5] = Inr r
          \<and> argT r = 3 / 4 \<and> inside_range r
          \<and> length (values_out r) = 5 \<and> length (derivs_out r) = 5
          \<and> values_out r ! 0 = 1 \<and> values_out r ! 1 = 16 \<and> values_out r ! 2 = 9
          \<and> values_out r ! 3 = 4 \<and> values_out r ! 4 = 1
          \<and> derivs_out r ! 0 = 0 \<and> derivs_out r ! 1 = 32 \<and> derivs_out r ! 2 = 24
          \<and> derivs_out r ! 3 = 16 \<and> derivs_out r ! 4 = 8"
    by blast
  then show ?thesis using h1 h2 h3 h4 h5 by blast
qed

end
